theory Spec2Isabelle
  imports Main "HOL-Library.Sublist"
begin

section \<open>The Config module: paths, names and parsing\<close>

text \<open>
  The project configuration read through \<open>useProject()\<close>: the application name, the
  stage, and the parameter-store prefix of the stage.
\<close>

record project_config =
  name :: string
  stage :: string
  ssmPrefix :: string

definition FALLBACK_STAGE :: string where
  "FALLBACK_STAGE = ''.fallback''"

definition SECRET_UPDATED_AT_ENV :: string where
  "SECRET_UPDATED_AT_ENV = ''SST_ADMIN_SECRET_UPDATED_AT''"

text \<open>\<open>Config.PREFIX.STAGE\<close> and \<open>Config.PREFIX.FALLBACK\<close>.\<close>

definition PREFIX_STAGE :: "project_config \<Rightarrow> string" where
  "PREFIX_STAGE project = ssmPrefix project"

definition PREFIX_FALLBACK :: "project_config \<Rightarrow> string" where
  "PREFIX_FALLBACK project = ''/sst/'' @ name project @ ''/'' @ FALLBACK_STAGE @ ''/''"

text \<open>\<open>input.replace(/-/g, "_")\<close>: every hyphen becomes an underscore.\<close>

definition normalizeID :: "string \<Rightarrow> string" where
  "normalizeID input = map (\<lambda>c. if c = CHR ''-'' then CHR ''_'' else c) input"

text \<open>The argument of \<open>pathFor\<close>.\<close>

record path_input =
  in_type :: string
  in_id :: string
  in_prop :: string
  in_fallback :: bool

definition pathFor :: "project_config \<Rightarrow> path_input \<Rightarrow> string" where
  "pathFor project input =
     (if in_fallback input then PREFIX_FALLBACK project else PREFIX_STAGE project)
       @ in_type input @ ''/'' @ normalizeID (in_id input) @ ''/'' @ in_prop input"

text \<open>
  \<open>String.prototype.split\<close> with a one-character separator: the result is never empty,
  and \<open>"".split("/")\<close> is \<open>[""]\<close>.
\<close>

fun split :: "char \<Rightarrow> string \<Rightarrow> string list" where
  "split sep [] = [[]]"
| "split sep (c # cs) =
     (if c = sep then [] # split sep cs
      else (case split sep cs of [] \<Rightarrow> [[c]] | p # ps \<Rightarrow> (c # p) # ps))"

text \<open>\<open>Array.prototype.join\<close> with a one-character separator.\<close>

fun join :: "char \<Rightarrow> string list \<Rightarrow> string" where
  "join sep [] = []"
| "join sep [x] = x"
| "join sep (x # y # ys) = x @ sep # join sep (y # ys)"

text \<open>
  The object \<open>parse\<close> returns. \<open>parts[0]\<close> always exists; \<open>parts[1]\<close> is
  \<open>undefined\<close> when the name has no separator after the prefix.
\<close>

record parsed =
  ptype :: string
  pid :: "string option"
  pprop :: string

definition parse :: "string \<Rightarrow> string \<Rightarrow> parsed" where
  "parse ssmName pfx =
     (let parts = split CHR ''/'' (drop (length pfx) ssmName)
      in \<lparr> ptype = (case parts of [] \<Rightarrow> [] | p # _ \<Rightarrow> p),
           pid = (if 1 < length parts then Some (parts ! 1) else None),
           pprop = join CHR ''/'' (drop 2 parts) \<rparr>)"

section \<open>The external clients\<close>

text \<open>
  An error as the code inspects it: \<open>e.name\<close> and \<open>e.message\<close>. A call that throws
  returns \<open>Inl e\<close>.
\<close>

datatype error = Error (err_name: string) (err_message: string)

definition TypeError :: error where
  "TypeError = Error ''TypeError'' ''Cannot read properties of undefined''"

subsection \<open>The parameter store (SSM)\<close>

datatype tier = Standard | Advanced

record parameter =
  Name :: string
  Value :: string

text \<open>
  The commands the module sends. \<open>GetParametersByPathCommand\<close> carries \<open>Path\<close> and
  \<open>NextToken\<close>; \<open>PutParameterCommand\<close> carries \<open>Name\<close>, \<open>Value\<close> and \<open>Tier\<close>. The
  fields the code sets to constants (\<open>WithDecryption\<close>, \<open>Recursive\<close>, \<open>Type\<close>,
  \<open>Overwrite\<close>) are left out.
\<close>

datatype ssm_command =
    GetParametersByPathCommand string "string option"
  | GetParameterCommand string
  | PutParameterCommand string string tier
  | DeleteParameterCommand string

datatype ssm_output =
    ParametersByPath "parameter list option" "string option"
  | ParameterOutput "parameter option"
  | EmptyOutput

text \<open>\<open>results.Parameters\<close> and \<open>results.NextToken\<close>; \<open>undefined\<close> is \<open>None\<close>.\<close>

fun Parameters :: "ssm_output \<Rightarrow> parameter list option" where
  "Parameters (ParametersByPath ps t) = ps"
| "Parameters (ParameterOutput p) = None"
| "Parameters EmptyOutput = None"

fun NextToken :: "ssm_output \<Rightarrow> string option" where
  "NextToken (ParametersByPath ps t) = t"
| "NextToken (ParameterOutput p) = None"
| "NextToken EmptyOutput = None"

text \<open>
  The store is outside the repository: a client is any function from a command and the
  store's state to a response and the next state. The world the module runs in pairs
  the store's state with the trace of what the module has sent and published so far.
\<close>

type_synonym 's ssm_client = "ssm_command \<Rightarrow> 's \<Rightarrow> (error + ssm_output) \<times> 's"

datatype event = SsmSent ssm_command | IotPublished string string string

type_synonym 's world = "'s \<times> event list"

definition ssm_send ::
  "'s ssm_client \<Rightarrow> ssm_command \<Rightarrow> 's world \<Rightarrow> (error + ssm_output) \<times> 's world" where
  "ssm_send ssm cmd w =
     (case ssm cmd (fst w) of (r, s') \<Rightarrow> (r, (s', snd w @ [SsmSent cmd])))"

text \<open>
  \<open>scanParameters\<close>: the loop \<open>while (true)\<close> follows the continuation token until a
  response carries none (or an empty one, which is falsy). The backend may hand out
  tokens forever, so the loop runs on fuel and \<open>None\<close> means it has not returned. The
  generator is drained by its only consumers, so the model returns what it yields as
  one list.
\<close>

fun scanParameters ::
  "nat \<Rightarrow> 's ssm_client \<Rightarrow> string \<Rightarrow> string option \<Rightarrow> 's world
     \<Rightarrow> ((error + parameter list) \<times> 's world) option" where
  "scanParameters 0 ssm pfx token w = None"
| "scanParameters (Suc n) ssm pfx token w =
     (case ssm_send ssm (GetParametersByPathCommand pfx token) w of
        (Inl e, w') \<Rightarrow> Some (Inl e, w')
      | (Inr results, w') \<Rightarrow>
          (let ps = (case Parameters results of None \<Rightarrow> [] | Some ps \<Rightarrow> ps)
           in case NextToken results of
                None \<Rightarrow> Some (Inr ps, w')
              | Some t \<Rightarrow>
                  if t = [] then Some (Inr ps, w')
                  else (case scanParameters n ssm pfx (Some t) w' of
                          None \<Rightarrow> None
                        | Some (Inl e, w'') \<Rightarrow> Some (Inl e, w'')
                        | Some (Inr rest, w'') \<Rightarrow> Some (Inr (ps @ rest), w''))))"

definition getParameter :: "'s ssm_client \<Rightarrow> string \<Rightarrow> 's world \<Rightarrow> (error + ssm_output) \<times> 's world" where
  "getParameter ssm nm w = ssm_send ssm (GetParameterCommand nm) w"

definition putParameter ::
  "'s ssm_client \<Rightarrow> string \<Rightarrow> string \<Rightarrow> 's world \<Rightarrow> (error + ssm_output) \<times> 's world" where
  "putParameter ssm nm val w =
     ssm_send ssm (PutParameterCommand nm val (if 4096 < length val then Advanced else Standard)) w"

definition deleteParameter :: "'s ssm_client \<Rightarrow> string \<Rightarrow> 's world \<Rightarrow> (error + ssm_output) \<times> 's world" where
  "deleteParameter ssm nm w = ssm_send ssm (DeleteParameterCommand nm) w"

subsection \<open>The event channel (IoT)\<close>

text \<open>What \<open>useIOT()\<close> resolves to: the topic prefix and \<open>publish\<close>, which may throw.\<close>

record iot =
  iot_prefix :: string
  iot_publish :: "string \<Rightarrow> string \<Rightarrow> string \<Rightarrow> error + unit"

definition publish ::
  "iot \<Rightarrow> string \<Rightarrow> string \<Rightarrow> string \<Rightarrow> 's world \<Rightarrow> (error + unit) \<times> 's world" where
  "publish io topic ev nm w =
     (iot_publish io topic ev nm, (fst w, snd w @ [IotPublished topic ev nm]))"

subsection \<open>The compute API (Lambda)\<close>

text \<open>
  \<open>GetFunctionConfigurationCommand\<close> answers with \<open>config.Environment?.Variables\<close>
  (\<open>None\<close> when absent); \<open>UpdateFunctionConfigurationCommand\<close> takes the new variables.
  The restarts of one \<open>restart\<close> run concurrently, so the API is taken as a function of
  the request alone.
\<close>

record lambda_client =
  getFunctionConfiguration :: "string \<Rightarrow> error + (string \<rightharpoonup> string) option"
  updateFunctionConfiguration :: "string \<Rightarrow> (string \<rightharpoonup> string) \<Rightarrow> error + unit"

section \<open>Listing parameters and building the environment\<close>

text \<open>An element of the list \<open>parameters\<close> returns: the parsed name and the value.\<close>

record entry = parsed +
  evalue :: string

text \<open>
  The body of each \<open>for await\<close> loop of \<open>parameters\<close>: parse the name against the
  prefix, skip the entry when the parsed type is \<open>"secrets"\<close>, push it otherwise.
\<close>

fun pushParsed :: "string \<Rightarrow> parameter list \<Rightarrow> entry list \<Rightarrow> entry list" where
  "pushParsed pfx [] result = result"
| "pushParsed pfx (p # ps) result =
     (let parsed = parse (Name p) pfx
      in if ptype parsed = ''secrets'' then pushParsed pfx ps result
         else pushParsed pfx ps
                (result @ [\<lparr> ptype = ptype parsed, pid = pid parsed, pprop = pprop parsed,
                             evalue = Value p \<rparr>]))"

definition parameters ::
  "nat \<Rightarrow> 's ssm_client \<Rightarrow> project_config \<Rightarrow> 's world
     \<Rightarrow> ((error + entry list) \<times> 's world) option" where
  "parameters fuel ssm project w =
     (case scanParameters fuel ssm (PREFIX_FALLBACK project) None w of
        None \<Rightarrow> None
      | Some (Inl e, w1) \<Rightarrow> Some (Inl e, w1)
      | Some (Inr fbs, w1) \<Rightarrow>
          (case scanParameters fuel ssm (PREFIX_STAGE project) None w1 of
             None \<Rightarrow> None
           | Some (Inl e, w2) \<Rightarrow> Some (Inl e, w2)
           | Some (Inr sts, w2) \<Rightarrow>
               Some (Inr (pushParsed (PREFIX_STAGE project) sts
                            (pushParsed (PREFIX_FALLBACK project) fbs [])), w2)))"

text \<open>
  \<open>envFor\<close> reads \<open>type\<close>, \<open>prop\<close> and \<open>id\<close> of its argument, here an element of
  the listing. It calls \<open>normalizeID(input.id)\<close>, which throws a \<open>TypeError\<close> on an
  \<open>undefined\<close> id.
\<close>

definition envFor :: "'a parsed_scheme \<Rightarrow> error + string" where
  "envFor input =
     (case pid input of
        None \<Rightarrow> Inl TypeError
      | Some i \<Rightarrow> Inr (''SST_'' @ ptype input @ ''_'' @ pprop input @ ''_'' @ normalizeID i))"

text \<open>\<open>map((p) => [envFor(p), p.value])\<close>: the first throw ends the mapping.\<close>

fun mapEntries :: "entry list \<Rightarrow> error + (string \<times> string) list" where
  "mapEntries [] = Inr []"
| "mapEntries (p # ps) =
     (case envFor p of
        Inl e \<Rightarrow> Inl e
      | Inr k \<Rightarrow> (case mapEntries ps of Inl e \<Rightarrow> Inl e | Inr kvs \<Rightarrow> Inr ((k, evalue p) # kvs)))"

text \<open>\<open>Object.fromEntries\<close>: the pairs are assigned in order, a later one overwrites.\<close>

definition fromEntries :: "(string \<times> string) list \<Rightarrow> (string \<rightharpoonup> string)" where
  "fromEntries kvs = foldl (\<lambda>m kv. m(fst kv \<mapsto> snd kv)) Map.empty kvs"

definition env ::
  "nat \<Rightarrow> 's ssm_client \<Rightarrow> project_config \<Rightarrow> 's world
     \<Rightarrow> ((error + (string \<rightharpoonup> string)) \<times> 's world) option" where
  "env fuel ssm project w =
     (case parameters fuel ssm project w of
        None \<Rightarrow> None
      | Some (Inl e, w') \<Rightarrow> Some (Inl e, w')
      | Some (Inr ps, w') \<Rightarrow>
          (case mapEntries ps of
             Inl e \<Rightarrow> Some (Inl e, w')
           | Inr kvs \<Rightarrow>
               Some (Inr ([''SST_APP'' \<mapsto> name project, ''SST_STAGE'' \<mapsto> stage project]
                            ++ fromEntries kvs), w')))"

section \<open>Writing a secret\<close>

record secret_input =
  s_key :: string
  s_value :: string
  s_fallback :: bool

text \<open>The test of the \<open>catch\<close> block of \<open>setSecret\<close>.\<close>

definition wasAdvanced :: "error \<Rightarrow> bool" where
  "wasAdvanced e =
     (err_name e = ''ValidationException'' \<and>
      prefix ''This parameter uses the advanced-parameter tier. You can't downgrade a parameter from the advanced-parameter tier to the standard-parameter tier.''
        (err_message e))"

definition setSecret ::
  "'s ssm_client \<Rightarrow> iot \<Rightarrow> project_config \<Rightarrow> secret_input \<Rightarrow> 's world
     \<Rightarrow> (error + unit) \<times> 's world" where
  "setSecret ssm io project input w =
     (let paramName = pathFor project
            \<lparr> in_type = ''Secret'', in_id = s_key input, in_prop = ''value'',
              in_fallback = s_fallback input \<rparr>;
          published = (\<lambda>w'. publish io (iot_prefix io @ ''/events'') ''config.secret.updated''
                                (s_key input) w')
      in case putParameter ssm paramName (s_value input) w of
           (Inr _, w1) \<Rightarrow> published w1
         | (Inl e, w1) \<Rightarrow>
             if \<not> wasAdvanced e then (Inl e, w1)
             else (case deleteParameter ssm paramName w1 of
                     (Inl e', w2) \<Rightarrow> (Inl e', w2)
                   | (Inr _, w2) \<Rightarrow>
                       (case putParameter ssm paramName (s_value input) w2 of
                          (Inl e'', w3) \<Rightarrow> (Inl e'', w3)
                        | (Inr _, w3) \<Rightarrow> published w3)))"

section \<open>Restarting the resources that use a secret\<close>

text \<open>
  \<open>restartFunction\<close>: read the configuration, write it back with the timestamp
  variable set. The \<open>catch\<close> block returns on the not-found error and falls off its
  end on every other one; both ways the function returns \<open>undefined\<close>, which is
  \<open>False\<close> here, and \<open>True\<close> is the \<open>true\<close> of the normal path. \<open>now\<close> is
  \<open>Date.now().toString()\<close>.
\<close>

definition restartFunction :: "lambda_client \<Rightarrow> string \<Rightarrow> string \<Rightarrow> error + bool" where
  "restartFunction lam now fn =
     (let caught = (\<lambda>e. if err_name e = ''ResourceNotFoundException'' \<and>
                             prefix ''Function not found'' (err_message e)
                          then Inr False
                          else Inr False)
      in case getFunctionConfiguration lam fn of
           Inl e \<Rightarrow> caught e
         | Inr config \<Rightarrow>
             (case updateFunctionConfiguration lam fn
                     ((case config of None \<Rightarrow> Map.empty | Some vars \<Rightarrow> vars)
                        (SECRET_UPDATED_AT_ENV \<mapsto> now)) of
                Inl e \<Rightarrow> caught e
              | Inr _ \<Rightarrow> Inr True))"

text \<open>
  A construct of the deployment metadata, with the fields \<open>restart\<close> reads. The site
  constructs declare \<open>mode: "placeholder" | "deployed"\<close>, \<open>edge: boolean | undefined\<close>,
  \<open>server: string\<close>, \<open>secrets: string[]\<close> and \<open>prefetchSecrets: boolean | undefined\<close>;
  a function carries \<open>arn\<close>, \<open>secrets\<close> and \<open>prefetchSecrets\<close>. A field a construct
  kind does not carry is never read for that kind.
\<close>

datatype mode = Placeholder | Deployed

record construct_data =
  mode :: mode
  edge :: "bool option"
  server :: string
  arn :: string
  secrets :: "string list"
  prefetchSecrets :: "bool option"

record construct =
  ctype :: string
  data :: construct_data

text \<open>The metadata of \<open>Stacks.metadata()\<close>: the constructs of each stack.\<close>

type_synonym metadata = "(string \<times> construct list) list"

text \<open>Truthiness of a \<open>boolean | undefined\<close>.\<close>

fun truthy :: "bool option \<Rightarrow> bool" where
  "truthy None = False"
| "truthy (Some b) = b"

text \<open>\<open>keys.some((key) => c.data.secrets.includes(key))\<close>.\<close>

definition usesSome :: "string list \<Rightarrow> construct \<Rightarrow> bool" where
  "usesSome keys c = (\<exists>key \<in> set keys. key \<in> set (secrets (data c)))"

definition siteData :: "metadata \<Rightarrow> string list \<Rightarrow> construct list" where
  "siteData metadata keys =
     filter (usesSome keys)
       (filter (\<lambda>c. ctype c = ''AstroSite'' \<or> ctype c = ''NextjsSite'' \<or>
                     ctype c = ''RemixSite'' \<or> ctype c = ''SolidStartSite'' \<or>
                     ctype c = ''SvelteKitSite'')
          (concat (map snd metadata)))"

definition siteDataPlaceholder :: "metadata \<Rightarrow> string list \<Rightarrow> construct list" where
  "siteDataPlaceholder metadata keys =
     filter (\<lambda>c. mode (data c) = Placeholder) (siteData metadata keys)"

definition siteDataWithPrefetchSecrets :: "metadata \<Rightarrow> string list \<Rightarrow> construct list" where
  "siteDataWithPrefetchSecrets metadata keys =
     filter (\<lambda>c. truthy (prefetchSecrets (data c)))
       (filter (\<lambda>c. mode (data c) = Deployed) (siteData metadata keys))"

definition siteDataEdge :: "metadata \<Rightarrow> string list \<Rightarrow> construct list" where
  "siteDataEdge metadata keys =
     filter (\<lambda>c. truthy (edge (data c)))
       (filter (\<lambda>c. \<not> truthy (prefetchSecrets (data c)))
          (filter (\<lambda>c. mode (data c) = Deployed) (siteData metadata keys)))"

definition siteDataRegional :: "metadata \<Rightarrow> string list \<Rightarrow> construct list" where
  "siteDataRegional metadata keys =
     filter (\<lambda>c. \<not> truthy (edge (data c)))
       (filter (\<lambda>c. \<not> truthy (prefetchSecrets (data c)))
          (filter (\<lambda>c. mode (data c) = Deployed) (siteData metadata keys)))"

text \<open>The servers of all matched sites, whatever their bucket.\<close>

definition regionalSiteArns :: "metadata \<Rightarrow> string list \<Rightarrow> string list" where
  "regionalSiteArns metadata keys = map (\<lambda>s. server (data s)) (siteData metadata keys)"

definition functionData :: "metadata \<Rightarrow> string list \<Rightarrow> construct list" where
  "functionData metadata keys =
     filter (usesSome keys)
       (filter (\<lambda>c. arn (data c) \<notin> set (regionalSiteArns metadata keys))
          (filter (\<lambda>c. ctype c = ''Function'') (concat (map snd metadata))))"

definition functionDataWithPrefetchSecrets :: "metadata \<Rightarrow> string list \<Rightarrow> construct list" where
  "functionDataWithPrefetchSecrets metadata keys =
     filter (\<lambda>c. truthy (prefetchSecrets (data c))) (functionData metadata keys)"

definition functionDataWithoutPrefetchSecrets :: "metadata \<Rightarrow> string list \<Rightarrow> construct list" where
  "functionDataWithoutPrefetchSecrets metadata keys =
     filter (\<lambda>c. \<not> truthy (prefetchSecrets (data c))) (functionData metadata keys)"

text \<open>
  \<open>(await Promise.all(cs.map(async (c) => ...))).filter(Boolean)\<close>: every construct of
  the list is handed to \<open>restartFunction\<close> by its identifier; those for which it
  returned \<open>true\<close> are kept, and a throw of any call is the throw of the whole. The
  second component lists the identifiers handed to \<open>restartFunction\<close>.
\<close>

fun restartAll ::
  "lambda_client \<Rightarrow> string \<Rightarrow> (construct \<Rightarrow> string) \<Rightarrow> construct list
     \<Rightarrow> (error + construct list) \<times> string list" where
  "restartAll lam now ident [] = (Inr [], [])"
| "restartAll lam now ident (c # cs) =
     (case restartAll lam now ident cs of
        (rest, calls) \<Rightarrow>
          ((case restartFunction lam now (ident c) of
              Inl e \<Rightarrow> Inl e
            | Inr restarted \<Rightarrow>
                (case rest of
                   Inl e \<Rightarrow> Inl e
                 | Inr rs \<Rightarrow> Inr (if restarted then c # rs else rs))),
           ident c # calls))"

text \<open>
  \<open>restart\<close> returns the report, an object given here by its keys in order with their
  values, together with the identifiers it has handed to \<open>restartFunction\<close>.
\<close>

type_synonym report = "(string \<times> construct list) list"

definition restart ::
  "lambda_client \<Rightarrow> string \<Rightarrow> metadata \<Rightarrow> string list \<Rightarrow> (error + report) \<times> string list" where
  "restart lam now metadata keys =
     (case restartAll lam now (\<lambda>s. server (data s)) (siteDataRegional metadata keys) of
        (Inl e, siteCalls) \<Rightarrow> (Inl e, siteCalls)
      | (Inr restartedSites, siteCalls) \<Rightarrow>
          (case restartAll lam now (\<lambda>f. arn (data f))
                  (functionDataWithoutPrefetchSecrets metadata keys) of
             (Inl e, functionCalls) \<Rightarrow> (Inl e, siteCalls @ functionCalls)
           | (Inr restartedFunctions, functionCalls) \<Rightarrow>
               (Inr [(''edgeSites'', siteDataEdge metadata keys),
                     (''sites'', restartedSites),
                     (''placeholderSites'', siteDataPlaceholder metadata keys),
                     (''functions'', restartedFunctions),
                     (''sitesWithPrefetch'', siteDataWithPrefetchSecrets metadata keys),
                     (''functionsWithPrefetch'', functionDataWithPrefetchSecrets metadata keys)],
                siteCalls @ functionCalls)))"

section \<open>Stores to run the operations on\<close>

text \<open>
  Modelled from the spec: the hierarchical key-value store, an external collaborator of
  the module. \<open>memoryStore\<close> keeps the parameters as a list of names with their values:
  a scan answers with the parameters under the path in one page, a put overwrites, a
  delete removes.
\<close>

fun memoryStore :: "(string \<times> string) list ssm_client" where
  "memoryStore (GetParametersByPathCommand path token) s =
     (Inr (ParametersByPath
             (Some (map (\<lambda>kv. \<lparr> Name = fst kv, Value = snd kv \<rparr>)
                      (filter (\<lambda>kv. prefix path (fst kv)) s)))
             None), s)"
| "memoryStore (GetParameterCommand nm) s =
     (Inr (ParameterOutput (map_option (\<lambda>v. \<lparr> Name = nm, Value = v \<rparr>) (map_of s nm))), s)"
| "memoryStore (PutParameterCommand nm val t) s =
     (Inr EmptyOutput, filter (\<lambda>kv. fst kv \<noteq> nm) s @ [(nm, val)])"
| "memoryStore (DeleteParameterCommand nm) s =
     (Inr EmptyOutput, filter (\<lambda>kv. fst kv \<noteq> nm) s)"

text \<open>
  A store that answers from a script, one response for each command it receives: the
  way a test makes a put fail once and then succeed.
\<close>

fun scripted :: "(error + ssm_output) list ssm_client" where
  "scripted cmd [] = (Inr EmptyOutput, [])"
| "scripted cmd (r # rs) = (r, rs)"

section \<open>Example inputs\<close>

definition exampleProject :: project_config where
  "exampleProject = \<lparr> name = ''app'', stage = ''dev'', ssmPrefix = ''/sst/app/dev/'' \<rparr>"

definition exampleIot :: iot where
  "exampleIot = \<lparr> iot_prefix = ''/sst/app/dev'', iot_publish = (\<lambda>topic ev nm. Inr ()) \<rparr>"

text \<open>The error the store raises when a put would move a parameter to the lower tier.\<close>

definition downgradeConflict :: error where
  "downgradeConflict = Error ''ValidationException''
     ''This parameter uses the advanced-parameter tier. You can't downgrade a parameter from the advanced-parameter tier to the standard-parameter tier. If necessary, you can delete the advanced parameter and recreate it as a standard parameter.''"

text \<open>
  A store with one parameter of the given type under each scope, for the id \<open>db\<close> and
  the prop \<open>host\<close>.
\<close>

definition exampleStore :: "string \<Rightarrow> (string \<times> string) list" where
  "exampleStore t =
     [(''/sst/app/.fallback/'' @ t @ ''/db/host'', ''fallback.example''),
      (''/sst/app/dev/'' @ t @ ''/db/host'', ''stage.example'')]"

text \<open>
  A store where a second STAGE parameter (id \<open>a_b\<close>, prop \<open>c\<close>) yields the same variable
  name as the parameter stored under both scopes (id \<open>b\<close>, prop \<open>c_a\<close>), and a store
  where a STAGE name has no id segment.
\<close>

definition collisionStore :: "(string \<times> string) list" where
  "collisionStore =
     [(''/sst/app/.fallback/Parameter/b/c_a'', ''fallback.example''),
      (''/sst/app/dev/Parameter/b/c_a'', ''stage.example''),
      (''/sst/app/dev/Parameter/a_b/c'', ''other'')]"

definition idlessStore :: "(string \<times> string) list" where
  "idlessStore =
     [(''/sst/app/.fallback/Parameter/db/host'', ''fallback.example''),
      (''/sst/app/dev/Parameter/db/host'', ''stage.example''),
      (''/sst/app/dev/orphan'', ''other'')]"

text \<open>
  A metadata snapshot with one site of each kind and three functions, all using the
  secret \<open>k\<close>; the last function is the server of the edge site.
\<close>

definition exampleSite :: "mode \<Rightarrow> bool option \<Rightarrow> bool option \<Rightarrow> string \<Rightarrow> construct" where
  "exampleSite m pf e srv =
     \<lparr> ctype = ''NextjsSite'',
       data = \<lparr> mode = m, edge = e, server = srv, arn = [], secrets = [''k''],
                prefetchSecrets = pf \<rparr> \<rparr>"

definition exampleFunction :: "bool option \<Rightarrow> string \<Rightarrow> construct" where
  "exampleFunction pf a =
     \<lparr> ctype = ''Function'',
       data = \<lparr> mode = Deployed, edge = None, server = [], arn = a, secrets = [''k''],
                prefetchSecrets = pf \<rparr> \<rparr>"

definition exampleMetadata :: metadata where
  "exampleMetadata =
     [(''stack'',
       [exampleSite Placeholder None None ''srv-p'',
        exampleSite Deployed (Some True) None ''srv-w'',
        exampleSite Deployed None (Some True) ''srv-e'',
        exampleSite Deployed None None ''srv-r'',
        exampleFunction None ''fn-a'',
        exampleFunction (Some True) ''fn-b'',
        exampleFunction None ''srv-e''])]"

text \<open>A compute API on which every call succeeds.\<close>

definition exampleLambda :: lambda_client where
  "exampleLambda = \<lparr> getFunctionConfiguration = (\<lambda>fn. Inr None),
                      updateFunctionConfiguration = (\<lambda>fn vars. Inr ()) \<rparr>"

section \<open>Properties of names and paths\<close>

lemma normalizeID_length: "length (normalizeID s) = length s"
  by (simp add: normalizeID_def)

lemma normalizeID_no_hyphen: "CHR ''-'' \<notin> set (normalizeID s)"
  by (auto simp: normalizeID_def)

lemma normalizeID_no_slash: "CHR ''/'' \<notin> set s \<Longrightarrow> CHR ''/'' \<notin> set (normalizeID s)"
  by (auto simp: normalizeID_def)

lemma normalizeID_idem: "normalizeID (normalizeID s) = normalizeID s"
  by (simp add: normalizeID_def)

lemma split_nonempty: "split sep s \<noteq> []"
  by (induction s) (auto split: list.splits)

lemma split_append_sep:
  "sep \<notin> set a \<Longrightarrow> split sep (a @ sep # b) = a # split sep b"
  by (induction a) auto

lemma join_split: "join sep (split sep s) = s"
proof (induction s)
  case Nil
  show ?case by simp
next
  case (Cons c cs)
  obtain p ps where sp: "split sep cs = p # ps"
    using split_nonempty [of sep cs] by (cases "split sep cs") auto
  show ?case
  proof (cases "c = sep")
    case True
    with Cons sp show ?thesis by simp
  next
    case False
    with Cons sp show ?thesis by (cases ps) auto
  qed
qed

lemma parse_pathFor:
  assumes "CHR ''/'' \<notin> set (in_type input)" and "CHR ''/'' \<notin> set (in_id input)"
  shows "parse (pathFor project input)
           (if in_fallback input then PREFIX_FALLBACK project else PREFIX_STAGE project)
         = \<lparr> ptype = in_type input, pid = Some (normalizeID (in_id input)),
             pprop = in_prop input \<rparr>"
proof -
  let ?pre = "if in_fallback input then PREFIX_FALLBACK project else PREFIX_STAGE project"
  let ?rest = "in_type input @ CHR ''/'' # normalizeID (in_id input) @ CHR ''/'' # in_prop input"
  have path: "pathFor project input = ?pre @ ?rest"
    by (simp add: pathFor_def)
  have nid: "CHR ''/'' \<notin> set (normalizeID (in_id input))"
    using assms(2) by (rule normalizeID_no_slash)
  have parts: "split CHR ''/'' ?rest
                 = in_type input # normalizeID (in_id input) # split CHR ''/'' (in_prop input)"
    using assms(1) nid by (simp add: split_append_sep)
  show ?thesis
    unfolding parse_def path by (simp add: parts join_split Let_def)
qed

lemma example_prefixes:
  "PREFIX_STAGE exampleProject = ''/sst/app/dev/''"
  "PREFIX_FALLBACK exampleProject = ''/sst/app/.fallback/''"
  by (simp_all add: exampleProject_def PREFIX_STAGE_def PREFIX_FALLBACK_def FALLBACK_STAGE_def)

lemma example_identity:
  "name exampleProject = ''app''" "stage exampleProject = ''dev''"
  by (simp_all add: exampleProject_def)

lemma example_paths:
  "pathFor exampleProject
     \<lparr> in_type = ''Secret'', in_id = ''k'', in_prop = ''value'', in_fallback = False \<rparr>
     = ''/sst/app/dev/Secret/k/value''"
  by (simp add: pathFor_def example_prefixes normalizeID_def)

text \<open>
  C9. For every string \<open>s\<close>, \<open>normalizeID s\<close> has the characters of \<open>s\<close> with every
  hyphen replaced by an underscore (hence contains no hyphen), it maps
  \<open>my-secret-key\<close> to \<open>my_secret_key\<close>, and normalizing twice equals normalizing once.
\<close>

theorem normalizeID_replaces_and_idempotent:
  "length (normalizeID s) = length s
   \<and> (\<forall>i < length s. normalizeID s ! i = (if s ! i = CHR ''-'' then CHR ''_'' else s ! i))
   \<and> CHR ''-'' \<notin> set (normalizeID s)
   \<and> normalizeID ''my-secret-key'' = ''my_secret_key''
   \<and> normalizeID (normalizeID s) = normalizeID s"
  by (auto simp: normalizeID_def)

theorem normalizeID_replaces_and_idempotent_witness:
  "length (normalizeID ''a-b'') = 3
   \<and> normalizeID ''a-b'' ! 1 = CHR ''_''
   \<and> normalizeID ''a-b'' ! 0 = CHR ''a''
   \<and> normalizeID (normalizeID ''a-b'') = ''a_b''"
  using normalizeID_replaces_and_idempotent [of "''a-b''"]
  by (simp add: normalizeID_def)

text \<open>
  C10. Round trip of path construction and parsing: when neither the type nor the id
  contains a slash (the prop may), parsing the path built by \<open>pathFor\<close> against the
  prefix of the same scope gives back the type, the normalized id and the prop. The
  id that comes back differs from the original one whenever that contained a hyphen.
\<close>

theorem parse_pathFor_roundtrip:
  assumes "CHR ''/'' \<notin> set (in_type input)" and "CHR ''/'' \<notin> set (in_id input)"
  shows "parse (pathFor project input)
           (if in_fallback input then PREFIX_FALLBACK project else PREFIX_STAGE project)
         = \<lparr> ptype = in_type input, pid = Some (normalizeID (in_id input)),
             pprop = in_prop input \<rparr>
         \<and> (CHR ''-'' \<in> set (in_id input) \<longrightarrow>
              pid (parse (pathFor project input)
                    (if in_fallback input then PREFIX_FALLBACK project else PREFIX_STAGE project))
              \<noteq> Some (in_id input))"
proof -
  have "CHR ''-'' \<in> set (in_id input) \<Longrightarrow> normalizeID (in_id input) \<noteq> in_id input"
    using normalizeID_no_hyphen [of "in_id input"] by auto
  then show ?thesis
    using parse_pathFor [OF assms, of project] by simp
qed

theorem parse_pathFor_roundtrip_witness:
  "parse (pathFor exampleProject
            \<lparr> in_type = ''Secret'', in_id = ''my-key'', in_prop = ''a/b'', in_fallback = True \<rparr>)
         ''/sst/app/.fallback/''
     = \<lparr> ptype = ''Secret'', pid = Some ''my_key'', pprop = ''a/b'' \<rparr>
   \<and> pid (parse (pathFor exampleProject
                   \<lparr> in_type = ''Secret'', in_id = ''my-key'', in_prop = ''a/b'',
                     in_fallback = True \<rparr>)
                ''/sst/app/.fallback/'')
     \<noteq> Some ''my-key''"
  using parse_pathFor_roundtrip
          [of "\<lparr> in_type = ''Secret'', in_id = ''my-key'', in_prop = ''a/b'', in_fallback = True \<rparr>"
              exampleProject]
  by (simp add: example_prefixes normalizeID_def)

section \<open>Properties of writing a secret\<close>

text \<open>
  C7. For every value, \<open>putParameter\<close> sends its command with the Standard tier when
  the value's length is at most 4096 and with the Advanced tier when it exceeds 4096;
  a value of length 4096 goes out as Standard and one of length 4097 as Advanced.
\<close>

theorem putParameter_tier:
  "(length val \<le> 4096 \<longrightarrow>
      putParameter ssm nm val w = ssm_send ssm (PutParameterCommand nm val Standard) w)
   \<and> (4096 < length val \<longrightarrow>
      putParameter ssm nm val w = ssm_send ssm (PutParameterCommand nm val Advanced) w)
   \<and> (length val = 4096 \<longrightarrow>
      snd (snd (putParameter ssm nm val w))
        = snd w @ [SsmSent (PutParameterCommand nm val Standard)])
   \<and> (length val = 4097 \<longrightarrow>
      snd (snd (putParameter ssm nm val w))
        = snd w @ [SsmSent (PutParameterCommand nm val Advanced)])"
  by (simp add: putParameter_def ssm_send_def split: prod.splits)

theorem putParameter_tier_witness:
  "snd (snd (putParameter scripted ''/p'' (replicate 4096 CHR ''a'') ([], [])))
     = [SsmSent (PutParameterCommand ''/p'' (replicate 4096 CHR ''a'') Standard)]
   \<and> snd (snd (putParameter scripted ''/p'' (replicate 4097 CHR ''a'') ([], [])))
     = [SsmSent (PutParameterCommand ''/p'' (replicate 4097 CHR ''a'') Advanced)]"
  using putParameter_tier [of "replicate 4096 CHR ''a''" scripted "''/p''" "([], [])"]
        putParameter_tier [of "replicate 4097 CHR ''a''" scripted "''/p''" "([], [])"]
  by (simp add: ssm_send_def)

lemma wasAdvanced_downgradeConflict: "wasAdvanced downgradeConflict"
  by (simp add: wasAdvanced_def downgradeConflict_def)

lemma not_wasAdvanced_AccessDenied: "\<not> wasAdvanced (Error ''AccessDeniedException'' ''denied'')"
  by (simp add: wasAdvanced_def)

text \<open>
  C3, as the code has it. When the first put fails with the tier-downgrade error,
  \<open>setSecret\<close> sends one delete of the same path. If the delete fails, its error is the
  outcome and nothing more is sent. If the delete succeeds, the put is sent once more:
  its error, if it fails, is the outcome, and otherwise the event is published and the
  outcome is that of the publish; the error of the first put is not raised. When the
  first put fails with any other error, that error is the outcome, unchanged, and
  nothing is sent after the put.
\<close>

theorem setSecret_recovery:
  fixes ssm :: "'s ssm_client"
  defines "path \<equiv> \<lambda>project input. pathFor project
             \<lparr> in_type = ''Secret'', in_id = s_key input, in_prop = ''value'',
               in_fallback = s_fallback input \<rparr>"
  defines "put \<equiv> \<lambda>project input. PutParameterCommand (path project input) (s_value input)
             (if 4096 < length (s_value input) then Advanced else Standard)"
  defines "del \<equiv> \<lambda>project input. DeleteParameterCommand (path project input)"
  assumes first: "ssm (put project input) s = (Inl e, s1)"
  shows "(wasAdvanced e \<and> ssm (del project input) s1 = (Inl e', s2) \<longrightarrow>
            setSecret ssm io project input (s, tr)
              = (Inl e', (s2, tr @ [SsmSent (put project input), SsmSent (del project input)])))
       \<and> (wasAdvanced e \<and> ssm (del project input) s1 = (Inr r, s2)
            \<and> ssm (put project input) s2 = (Inl e'', s3) \<longrightarrow>
            setSecret ssm io project input (s, tr)
              = (Inl e'', (s3, tr @ [SsmSent (put project input), SsmSent (del project input),
                                     SsmSent (put project input)])))
       \<and> (wasAdvanced e \<and> ssm (del project input) s1 = (Inr r, s2)
            \<and> ssm (put project input) s2 = (Inr r', s3) \<longrightarrow>
            setSecret ssm io project input (s, tr)
              = (iot_publish io (iot_prefix io @ ''/events'') ''config.secret.updated'' (s_key input),
                 (s3, tr @ [SsmSent (put project input), SsmSent (del project input),
                            SsmSent (put project input),
                            IotPublished (iot_prefix io @ ''/events'') ''config.secret.updated''
                              (s_key input)])))
       \<and> (\<not> wasAdvanced e \<longrightarrow>
            setSecret ssm io project input (s, tr)
              = (Inl e, (s1, tr @ [SsmSent (put project input)])))"
  using first unfolding put_def del_def path_def
  by (simp add: setSecret_def putParameter_def deleteParameter_def ssm_send_def publish_def
        Let_def)

theorem setSecret_recovery_witness:
  "setSecret scripted exampleIot exampleProject
     \<lparr> s_key = ''k'', s_value = ''v'', s_fallback = False \<rparr>
     ([Inl downgradeConflict, Inr EmptyOutput, Inr EmptyOutput], [])
   = (Inr (),
      ([], [SsmSent (PutParameterCommand ''/sst/app/dev/Secret/k/value'' ''v'' Standard),
            SsmSent (DeleteParameterCommand ''/sst/app/dev/Secret/k/value''),
            SsmSent (PutParameterCommand ''/sst/app/dev/Secret/k/value'' ''v'' Standard),
            IotPublished ''/sst/app/dev/events'' ''config.secret.updated'' ''k'']))
   \<and> setSecret scripted exampleIot exampleProject
     \<lparr> s_key = ''k'', s_value = ''v'', s_fallback = False \<rparr>
     ([Inl (Error ''AccessDeniedException'' ''denied''), Inr EmptyOutput], [])
   = (Inl (Error ''AccessDeniedException'' ''denied''),
      ([Inr EmptyOutput],
       [SsmSent (PutParameterCommand ''/sst/app/dev/Secret/k/value'' ''v'' Standard)]))"
  using setSecret_recovery [where ssm = scripted and project = exampleProject
          and input = "\<lparr> s_key = ''k'', s_value = ''v'', s_fallback = False \<rparr>"
          and s = "[Inl downgradeConflict, Inr EmptyOutput, Inr EmptyOutput]"
          and e = downgradeConflict and ?s1.0 = "[Inr EmptyOutput, Inr EmptyOutput]"
          and r = EmptyOutput and ?s2.0 = "[Inr EmptyOutput]"
          and r' = EmptyOutput and ?s3.0 = "[]"
          and io = exampleIot and tr = "[]"]
        setSecret_recovery [where ssm = scripted and project = exampleProject
          and input = "\<lparr> s_key = ''k'', s_value = ''v'', s_fallback = False \<rparr>"
          and s = "[Inl (Error ''AccessDeniedException'' ''denied''), Inr EmptyOutput]"
          and e = "Error ''AccessDeniedException'' ''denied''" and ?s1.0 = "[Inr EmptyOutput]"
          and io = exampleIot and tr = "[]"]
  by (simp add: example_paths wasAdvanced_downgradeConflict not_wasAdvanced_AccessDenied
        exampleIot_def)

text \<open>
  C3, as the claim states it, fails when the delete itself fails: the store answers the
  put with the tier-downgrade error and the delete with an access error; \<open>setSecret\<close>
  raises the access error after the put and the delete, and no put is retried.
\<close>

theorem setSecret_failed_delete_no_retry:
  "setSecret scripted exampleIot exampleProject
     \<lparr> s_key = ''k'', s_value = ''v'', s_fallback = False \<rparr>
     ([Inl downgradeConflict, Inl (Error ''AccessDeniedException'' ''denied'')], [])
   = (Inl (Error ''AccessDeniedException'' ''denied''),
      ([], [SsmSent (PutParameterCommand ''/sst/app/dev/Secret/k/value'' ''v'' Standard),
            SsmSent (DeleteParameterCommand ''/sst/app/dev/Secret/k/value'')]))"
  by (simp add: setSecret_def putParameter_def deleteParameter_def ssm_send_def
        example_paths wasAdvanced_downgradeConflict Let_def)

section \<open>Properties of the listing and of the environment\<close>

lemma pushParsed_eq:
  "pushParsed pfx ps result
     = result @ map (\<lambda>p. \<lparr> ptype = ptype (parse (Name p) pfx), pid = pid (parse (Name p) pfx),
                            pprop = pprop (parse (Name p) pfx), evalue = Value p \<rparr>)
                  (filter (\<lambda>p. ptype (parse (Name p) pfx) \<noteq> ''secrets'') ps)"
  by (induction ps arbitrary: result) (simp_all add: Let_def)

lemma parameters_eq:
  assumes "scanParameters fuel ssm (PREFIX_FALLBACK project) None w = Some (Inr fbs, w1)"
    and "scanParameters fuel ssm (PREFIX_STAGE project) None w1 = Some (Inr sts, w2)"
  shows "parameters fuel ssm project w
           = Some (Inr (pushParsed (PREFIX_FALLBACK project) fbs []
                        @ pushParsed (PREFIX_STAGE project) sts []), w2)"
  using assms by (simp add: parameters_def pushParsed_eq)

lemma mapEntries_wellformed:
  "\<forall>e \<in> set es. pid e \<noteq> None \<Longrightarrow>
     mapEntries es
       = Inr (map (\<lambda>e. (''SST_'' @ ptype e @ ''_'' @ pprop e @ ''_'' @ normalizeID (the (pid e)),
                        evalue e)) es)"
  by (induction es) (auto simp: envFor_def)

lemma foldl_update:
  "foldl (\<lambda>m kv. m(fst kv \<mapsto> snd kv)) m0 kvs = m0 ++ map_of (rev kvs)"
  by (induction kvs arbitrary: m0) (simp_all add: map_add_upd_left)

lemma fromEntries_map_of: "fromEntries kvs = map_of (rev kvs)"
  by (simp add: fromEntries_def foldl_update)

text \<open>Among the pairs of a list, a key that the tail binds to one value only has that value.\<close>

lemma fromEntries_last_wins:
  assumes "(k, v) \<in> set ys" and "\<forall>kv \<in> set ys. fst kv = k \<longrightarrow> snd kv = v"
  shows "fromEntries (xs @ ys) k = Some v"
proof -
  have "k \<in> fst ` set (rev ys)" using assms(1) by force
  then obtain v' where v': "map_of (rev ys) k = Some v'"
    by (metis map_of_eq_None_iff not_Some_eq)
  then have "(k, v') \<in> set ys" using map_of_SomeD by fastforce
  with assms(2) have "v' = v" by auto
  with v' show ?thesis by (simp add: fromEntries_map_of map_add_def)
qed

lemma example_scan_fallback:
  "scanParameters 1 memoryStore ''/sst/app/.fallback/'' None (exampleStore t, tr)
     = Some (Inr [\<lparr> Name = ''/sst/app/.fallback/'' @ t @ ''/db/host'',
                   Value = ''fallback.example'' \<rparr>],
             (exampleStore t,
              tr @ [SsmSent (GetParametersByPathCommand ''/sst/app/.fallback/'' None)]))"
  by (simp add: ssm_send_def exampleStore_def)

lemma example_scan_stage:
  "scanParameters 1 memoryStore ''/sst/app/dev/'' None (exampleStore t, tr)
     = Some (Inr [\<lparr> Name = ''/sst/app/dev/'' @ t @ ''/db/host'', Value = ''stage.example'' \<rparr>],
             (exampleStore t,
              tr @ [SsmSent (GetParametersByPathCommand ''/sst/app/dev/'' None)]))"
  by (simp add: ssm_send_def exampleStore_def)

lemma example_parse_secret:
  "parse ''/sst/app/dev/Secret/k/value'' ''/sst/app/dev/''
     = \<lparr> ptype = ''Secret'', pid = Some ''k'', pprop = ''value'' \<rparr>"
  by (simp add: parse_def)

text \<open>What the guard of the listing does exclude: the entries of parsed type \<open>secrets\<close>.\<close>

lemma parameters_skips_type_secrets:
  assumes "parameters fuel ssm project w = Some (Inr es, w')"
  shows "\<forall>e \<in> set es. ptype e \<noteq> ''secrets''"
  using assms
  by (auto simp: parameters_def pushParsed_eq split: option.splits sum.splits prod.splits)

text \<open>
  C1. The listing is meant to leave the secrets out, yet it compares the parsed type
  with \<open>secrets\<close> while \<open>setSecret\<close> writes the type \<open>Secret\<close>: after
  \<open>setSecret\<close> has stored the secret \<open>k\<close> in an empty store, \<open>parameters\<close> returns
  an entry of type \<open>Secret\<close> carrying the secret's value.
\<close>

theorem parameters_lists_Secret:
  "map_option fst
     (parameters 1 memoryStore exampleProject
        (snd (setSecret memoryStore exampleIot exampleProject
                \<lparr> s_key = ''k'', s_value = ''hunter2'', s_fallback = False \<rparr> ([], []))))
   = Some (Inr [\<lparr> ptype = ''Secret'', pid = Some ''k'', pprop = ''value'',
                  evalue = ''hunter2'' \<rparr>])"
proof -
  have w: "snd (setSecret memoryStore exampleIot exampleProject
                \<lparr> s_key = ''k'', s_value = ''hunter2'', s_fallback = False \<rparr> ([], []))
           = ([(''/sst/app/dev/Secret/k/value'', ''hunter2'')],
              [SsmSent (PutParameterCommand ''/sst/app/dev/Secret/k/value'' ''hunter2'' Standard),
               IotPublished ''/sst/app/dev/events'' ''config.secret.updated'' ''k''])"
    by (simp add: setSecret_def putParameter_def ssm_send_def publish_def example_paths
          exampleIot_def Let_def)
  show ?thesis
    unfolding w
    by (simp add: parameters_def ssm_send_def example_prefixes example_parse_secret)
qed

text \<open>
  C4, as the code has it. Let the listing hold an entry that comes from the STAGE scan,
  with its type, id, prop and value, whether or not it holds one from the FALLBACK
  scan for the same type, id and prop. If both scans return, every listed entry has an
  id, and every listed STAGE entry that yields the same variable name carries the same
  value, then \<open>env\<close> returns a map, and the map sends the variable name to the STAGE
  value.
\<close>

theorem env_stage_wins:
  assumes fb: "scanParameters fuel ssm (PREFIX_FALLBACK project) None w = Some (Inr fbs, w1)"
    and st: "scanParameters fuel ssm (PREFIX_STAGE project) None w1 = Some (Inr sts, w2)"
    and listed: "\<lparr> ptype = t, pid = Some i, pprop = pr, evalue = vs \<rparr>
                   \<in> set (pushParsed (PREFIX_STAGE project) sts [])"
    and wf: "\<forall>e \<in> set (pushParsed (PREFIX_FALLBACK project) fbs []
                       @ pushParsed (PREFIX_STAGE project) sts []). pid e \<noteq> None"
    and uniq: "\<forall>e \<in> set (pushParsed (PREFIX_STAGE project) sts []).
                 envFor e = Inr (''SST_'' @ t @ ''_'' @ pr @ ''_'' @ normalizeID i)
                 \<longrightarrow> evalue e = vs"
  shows "\<exists>m. env fuel ssm project w = Some (Inr m, w2)
            \<and> m (''SST_'' @ t @ ''_'' @ pr @ ''_'' @ normalizeID i) = Some vs"
proof -
  let ?k = "''SST_'' @ t @ ''_'' @ pr @ ''_'' @ normalizeID i"
  let ?kv = "\<lambda>e::entry. (''SST_'' @ ptype e @ ''_'' @ pprop e @ ''_'' @ normalizeID (the (pid e)),
                          evalue e)"
  let ?F = "pushParsed (PREFIX_FALLBACK project) fbs []"
  let ?S = "pushParsed (PREFIX_STAGE project) sts []"
  let ?e0 = "\<lparr> ptype = t, pid = Some i, pprop = pr, evalue = vs \<rparr>"
  have params: "parameters fuel ssm project w = Some (Inr (?F @ ?S), w2)"
    using fb st by (rule parameters_eq)
  have entries: "mapEntries (?F @ ?S) = Inr (map ?kv ?F @ map ?kv ?S)"
    using mapEntries_wellformed [OF wf] by simp
  have "?kv ?e0 = (?k, vs)" by simp
  with listed have mem: "(?k, vs) \<in> set (map ?kv ?S)"
    by (metis (no_types, lifting) image_eqI set_map)
  have same: "\<forall>kv \<in> set (map ?kv ?S). fst kv = ?k \<longrightarrow> snd kv = vs"
  proof
    fix kv assume "kv \<in> set (map ?kv ?S)"
    then obtain e where e: "e \<in> set ?S" and kv: "kv = ?kv e"
      by auto
    obtain j where j: "pid e = Some j"
      using wf e by auto
    show "fst kv = ?k \<longrightarrow> snd kv = vs"
    proof
      assume "fst kv = ?k"
      then have "envFor e = Inr ?k"
        using kv j by (simp add: envFor_def)
      with uniq e have "evalue e = vs" by blast
      then show "snd kv = vs" using kv by simp
    qed
  qed
  let ?m = "[''SST_APP'' \<mapsto> name project, ''SST_STAGE'' \<mapsto> stage project]
               ++ fromEntries (map ?kv ?F @ map ?kv ?S)"
  have "fromEntries (map ?kv ?F @ map ?kv ?S) ?k = Some vs"
    using mem same by (rule fromEntries_last_wins)
  then have m: "?m ?k = Some vs"
    by (simp add: map_add_def)
  have e: "env fuel ssm project w = Some (Inr ?m, w2)"
    by (simp add: env_def params entries)
  show ?thesis
    by (rule exI [of _ ?m]) (rule conjI [OF e m])
qed

lemma example_listing_fallback:
  "pushParsed ''/sst/app/.fallback/''
     [\<lparr> Name = ''/sst/app/.fallback/Parameter/db/host'', Value = ''fallback.example'' \<rparr>] []
   = [\<lparr> ptype = ''Parameter'', pid = Some ''db'', pprop = ''host'',
        evalue = ''fallback.example'' \<rparr>]"
  by (simp add: parse_def Let_def)

lemma example_listing_stage:
  "pushParsed ''/sst/app/dev/''
     [\<lparr> Name = ''/sst/app/dev/Parameter/db/host'', Value = ''stage.example'' \<rparr>] []
   = [\<lparr> ptype = ''Parameter'', pid = Some ''db'', pprop = ''host'',
        evalue = ''stage.example'' \<rparr>]"
  by (simp add: parse_def Let_def)

theorem env_stage_wins_witness:
  "\<exists>m w. env 1 memoryStore exampleProject (exampleStore ''Parameter'', []) = Some (Inr m, w)
         \<and> m ''SST_Parameter_host_db'' = Some ''stage.example''"
proof -
  have fb: "scanParameters 1 memoryStore (PREFIX_FALLBACK exampleProject) None
              (exampleStore ''Parameter'', [])
            = Some (Inr [\<lparr> Name = ''/sst/app/.fallback/Parameter/db/host'',
                          Value = ''fallback.example'' \<rparr>],
                    (exampleStore ''Parameter'',
                     [SsmSent (GetParametersByPathCommand ''/sst/app/.fallback/'' None)]))"
    unfolding example_prefixes using example_scan_fallback [of "''Parameter''" "[]"] by simp
  have st: "scanParameters 1 memoryStore (PREFIX_STAGE exampleProject) None
              (exampleStore ''Parameter'',
               [SsmSent (GetParametersByPathCommand ''/sst/app/.fallback/'' None)])
            = Some (Inr [\<lparr> Name = ''/sst/app/dev/Parameter/db/host'',
                          Value = ''stage.example'' \<rparr>],
                    (exampleStore ''Parameter'',
                     [SsmSent (GetParametersByPathCommand ''/sst/app/.fallback/'' None),
                      SsmSent (GetParametersByPathCommand ''/sst/app/dev/'' None)]))"
    unfolding example_prefixes
    using example_scan_stage
            [of "''Parameter''" "[SsmSent (GetParametersByPathCommand ''/sst/app/.fallback/'' None)]"]
    by simp
  have "\<exists>m. env 1 memoryStore exampleProject (exampleStore ''Parameter'', [])
               = Some (Inr m, (exampleStore ''Parameter'',
                               [SsmSent (GetParametersByPathCommand ''/sst/app/.fallback/'' None),
                                SsmSent (GetParametersByPathCommand ''/sst/app/dev/'' None)]))
            \<and> m (''SST_'' @ ''Parameter'' @ ''_'' @ ''host'' @ ''_'' @ normalizeID ''db'')
                = Some ''stage.example''"
  proof (rule env_stage_wins [OF fb st])
    show "\<lparr> ptype = ''Parameter'', pid = Some ''db'', pprop = ''host'',
             evalue = ''stage.example'' \<rparr>
          \<in> set (pushParsed (PREFIX_STAGE exampleProject)
                   [\<lparr> Name = ''/sst/app/dev/Parameter/db/host'',
                      Value = ''stage.example'' \<rparr>] [])"
      unfolding example_prefixes example_listing_stage by simp
    show "\<forall>e \<in> set (pushParsed (PREFIX_FALLBACK exampleProject)
                       [\<lparr> Name = ''/sst/app/.fallback/Parameter/db/host'',
                          Value = ''fallback.example'' \<rparr>] []
                     @ pushParsed (PREFIX_STAGE exampleProject)
                         [\<lparr> Name = ''/sst/app/dev/Parameter/db/host'',
                            Value = ''stage.example'' \<rparr>] []). pid e \<noteq> None"
      unfolding example_prefixes example_listing_fallback example_listing_stage by simp
    show "\<forall>e \<in> set (pushParsed (PREFIX_STAGE exampleProject)
                       [\<lparr> Name = ''/sst/app/dev/Parameter/db/host'',
                          Value = ''stage.example'' \<rparr>] []).
            envFor e = Inr (''SST_'' @ ''Parameter'' @ ''_'' @ ''host'' @ ''_'' @ normalizeID ''db'')
            \<longrightarrow> evalue e = ''stage.example''"
      unfolding example_prefixes example_listing_stage by simp
  qed
  then show ?thesis by (simp add: normalizeID_def) blast
qed

lemma collision_scans:
  "scanParameters 1 memoryStore ''/sst/app/.fallback/'' None (collisionStore, tr)
     = Some (Inr [\<lparr> Name = ''/sst/app/.fallback/Parameter/b/c_a'', Value = ''fallback.example'' \<rparr>],
             (collisionStore,
              tr @ [SsmSent (GetParametersByPathCommand ''/sst/app/.fallback/'' None)]))"
  "scanParameters 1 memoryStore ''/sst/app/dev/'' None (collisionStore, tr)
     = Some (Inr [\<lparr> Name = ''/sst/app/dev/Parameter/b/c_a'', Value = ''stage.example'' \<rparr>,
                  \<lparr> Name = ''/sst/app/dev/Parameter/a_b/c'', Value = ''other'' \<rparr>],
             (collisionStore,
              tr @ [SsmSent (GetParametersByPathCommand ''/sst/app/dev/'' None)]))"
  by (simp_all add: ssm_send_def collisionStore_def)

text \<open>
  C4, as the claim states it, fails when another STAGE parameter yields the same
  variable name: the parameter of id \<open>b\<close> and prop \<open>c_a\<close> is stored under both
  scopes, and the map \<open>env\<close> returns sends \<open>SST_Parameter_c_a_b\<close> to the value of
  the STAGE parameter of id \<open>a_b\<close> and prop \<open>c\<close>, listed after it.
\<close>

theorem env_name_collision:
  "map_option fst (env 1 memoryStore exampleProject (collisionStore, []))
     = Some (Inr [''SST_APP'' \<mapsto> ''app'', ''SST_STAGE'' \<mapsto> ''dev'',
                  ''SST_Parameter_c_a_b'' \<mapsto> ''other''])"
proof -
  have ps: "parameters 1 memoryStore exampleProject (collisionStore, [])
              = Some (Inr [\<lparr> ptype = ''Parameter'', pid = Some ''b'', pprop = ''c_a'',
                             evalue = ''fallback.example'' \<rparr>,
                           \<lparr> ptype = ''Parameter'', pid = Some ''b'', pprop = ''c_a'',
                             evalue = ''stage.example'' \<rparr>,
                           \<lparr> ptype = ''Parameter'', pid = Some ''a_b'', pprop = ''c'',
                             evalue = ''other'' \<rparr>],
                      (collisionStore,
                       [SsmSent (GetParametersByPathCommand ''/sst/app/.fallback/'' None),
                        SsmSent (GetParametersByPathCommand ''/sst/app/dev/'' None)]))"
    by (simp add: parameters_def example_prefixes collision_scans parse_def Let_def
          del: One_nat_def)
  show ?thesis
    unfolding env_def ps
    by (simp add: envFor_def normalizeID_def fromEntries_def example_identity)
qed

text \<open>
  With a STAGE name that has no id segment, \<open>env\<close> returns no map: \<open>envFor\<close> throws.
\<close>

lemma idless_scans:
  "scanParameters 1 memoryStore ''/sst/app/.fallback/'' None (idlessStore, tr)
     = Some (Inr [\<lparr> Name = ''/sst/app/.fallback/Parameter/db/host'', Value = ''fallback.example'' \<rparr>],
             (idlessStore,
              tr @ [SsmSent (GetParametersByPathCommand ''/sst/app/.fallback/'' None)]))"
  "scanParameters 1 memoryStore ''/sst/app/dev/'' None (idlessStore, tr)
     = Some (Inr [\<lparr> Name = ''/sst/app/dev/Parameter/db/host'', Value = ''stage.example'' \<rparr>,
                  \<lparr> Name = ''/sst/app/dev/orphan'', Value = ''other'' \<rparr>],
             (idlessStore,
              tr @ [SsmSent (GetParametersByPathCommand ''/sst/app/dev/'' None)]))"
  by (simp_all add: ssm_send_def idlessStore_def)

lemma env_throws_on_name_without_id:
  "map_option fst (env 1 memoryStore exampleProject (idlessStore, [])) = Some (Inl TypeError)"
proof -
  have ps: "parameters 1 memoryStore exampleProject (idlessStore, [])
              = Some (Inr [\<lparr> ptype = ''Parameter'', pid = Some ''db'', pprop = ''host'',
                             evalue = ''fallback.example'' \<rparr>,
                           \<lparr> ptype = ''Parameter'', pid = Some ''db'', pprop = ''host'',
                             evalue = ''stage.example'' \<rparr>,
                           \<lparr> ptype = ''orphan'', pid = None, pprop = [],
                             evalue = ''other'' \<rparr>],
                      (idlessStore,
                       [SsmSent (GetParametersByPathCommand ''/sst/app/.fallback/'' None),
                        SsmSent (GetParametersByPathCommand ''/sst/app/dev/'' None)]))"
    by (simp add: parameters_def example_prefixes idless_scans parse_def Let_def
          del: One_nat_def)
  show ?thesis
    unfolding env_def ps by (simp add: envFor_def normalizeID_def)
qed

section \<open>Properties of the restart\<close>

lemma restartFunction_never_throws: "restartFunction lam now fn \<noteq> Inl e"
  by (simp add: restartFunction_def Let_def split: sum.splits)

lemma restartFunction_cases:
  "restartFunction lam now fn = Inr True \<or> restartFunction lam now fn = Inr False"
  by (simp add: restartFunction_def Let_def split: sum.splits)

lemma restartAll_returns:
  "\<exists>rs. restartAll lam now ident cs = (Inr rs, map ident cs) \<and> set rs \<subseteq> set cs"
proof (induction cs)
  case Nil
  show ?case by simp
next
  case (Cons c cs)
  then obtain rs where rs: "restartAll lam now ident cs = (Inr rs, map ident cs)"
      "set rs \<subseteq> set cs"
    by blast
  show ?case
    using restartFunction_cases [of lam now "ident c"] rs by auto
qed

lemma restart_eq:
  "\<exists>ss fs. restart lam now metadata keys
             = (Inr [(''edgeSites'', siteDataEdge metadata keys),
                     (''sites'', ss),
                     (''placeholderSites'', siteDataPlaceholder metadata keys),
                     (''functions'', fs),
                     (''sitesWithPrefetch'', siteDataWithPrefetchSecrets metadata keys),
                     (''functionsWithPrefetch'', functionDataWithPrefetchSecrets metadata keys)],
                map (\<lambda>s. server (data s)) (siteDataRegional metadata keys)
                @ map (\<lambda>f. arn (data f)) (functionDataWithoutPrefetchSecrets metadata keys))
           \<and> set ss \<subseteq> set (siteDataRegional metadata keys)
           \<and> set fs \<subseteq> set (functionDataWithoutPrefetchSecrets metadata keys)"
proof -
  obtain ss where ss:
      "restartAll lam now (\<lambda>s. server (data s)) (siteDataRegional metadata keys)
         = (Inr ss, map (\<lambda>s. server (data s)) (siteDataRegional metadata keys))"
      "set ss \<subseteq> set (siteDataRegional metadata keys)"
    using restartAll_returns by blast
  obtain fs where fs:
      "restartAll lam now (\<lambda>f. arn (data f)) (functionDataWithoutPrefetchSecrets metadata keys)
         = (Inr fs, map (\<lambda>f. arn (data f)) (functionDataWithoutPrefetchSecrets metadata keys))"
      "set fs \<subseteq> set (functionDataWithoutPrefetchSecrets metadata keys)"
    using restartAll_returns by blast
  show ?thesis using ss fs by (simp add: restart_def)
qed

text \<open>
  C5. The \<open>catch\<close> block of \<open>restartFunction\<close> tells the not-found error from the
  others and then returns nothing either way: when the compute API refuses the read of
  the configuration with an access error, \<open>restartFunction\<close> returns \<open>undefined\<close>
  instead of raising the error.
\<close>

theorem restartFunction_swallows_other_errors:
  "restartFunction
     \<lparr> getFunctionConfiguration =
         (\<lambda>fn. Inl (Error ''AccessDeniedException'' ''User is not authorized'')),
       updateFunctionConfiguration = (\<lambda>fn vars. Inr ()) \<rparr>
     ''1700000000000'' ''arn:aws:lambda:us-east-1:1:function:f''
   = Inr False"
  by (simp add: restartFunction_def)

lemma example_siteData:
  "siteData exampleMetadata [''k'']
     = [exampleSite Placeholder None None ''srv-p'',
        exampleSite Deployed (Some True) None ''srv-w'',
        exampleSite Deployed None (Some True) ''srv-e'',
        exampleSite Deployed None None ''srv-r'']"
  by (simp add: siteData_def exampleMetadata_def usesSome_def exampleSite_def exampleFunction_def)

lemma example_site_fields:
  "mode (data (exampleSite m pf e srv)) = m"
  "edge (data (exampleSite m pf e srv)) = e"
  "server (data (exampleSite m pf e srv)) = srv"
  "prefetchSecrets (data (exampleSite m pf e srv)) = pf"
  by (simp_all add: exampleSite_def)

lemma example_buckets:
  "siteDataPlaceholder exampleMetadata [''k''] = [exampleSite Placeholder None None ''srv-p'']"
  "siteDataWithPrefetchSecrets exampleMetadata [''k'']
     = [exampleSite Deployed (Some True) None ''srv-w'']"
  "siteDataEdge exampleMetadata [''k''] = [exampleSite Deployed None (Some True) ''srv-e'']"
  "siteDataRegional exampleMetadata [''k''] = [exampleSite Deployed None None ''srv-r'']"
  by (simp_all add: siteDataPlaceholder_def siteDataWithPrefetchSecrets_def siteDataEdge_def
        siteDataRegional_def example_siteData example_site_fields)

lemma example_functionData:
  "functionData exampleMetadata [''k'']
     = [exampleFunction None ''fn-a'', exampleFunction (Some True) ''fn-b'']"
  by (simp add: functionData_def regionalSiteArns_def example_siteData example_site_fields)
     (simp add: exampleMetadata_def exampleSite_def exampleFunction_def usesSome_def)

lemma example_function_buckets:
  "functionDataWithPrefetchSecrets exampleMetadata [''k''] = [exampleFunction (Some True) ''fn-b'']"
  "functionDataWithoutPrefetchSecrets exampleMetadata [''k''] = [exampleFunction None ''fn-a'']"
  by (simp_all add: functionDataWithPrefetchSecrets_def functionDataWithoutPrefetchSecrets_def
        example_functionData) (simp_all add: exampleFunction_def)

lemma example_restart:
  "restart exampleLambda ''1700000000000'' exampleMetadata [''k'']
     = (Inr [(''edgeSites'', [exampleSite Deployed None (Some True) ''srv-e'']),
             (''sites'', [exampleSite Deployed None None ''srv-r'']),
             (''placeholderSites'', [exampleSite Placeholder None None ''srv-p'']),
             (''functions'', [exampleFunction None ''fn-a'']),
             (''sitesWithPrefetch'', [exampleSite Deployed (Some True) None ''srv-w'']),
             (''functionsWithPrefetch'', [exampleFunction (Some True) ''fn-b''])],
        [''srv-r'', ''fn-a''])"
  by (simp add: restart_def example_buckets example_function_buckets restartFunction_def
        exampleLambda_def example_site_fields)
     (simp add: exampleFunction_def)

text \<open>
  C8, as the code has it. For every input, \<open>restart\<close> returns a report with six named
  groups, in this order: edge sites, restarted sites, placeholder sites, restarted
  functions, sites with prefetch, functions with prefetch.
\<close>

theorem restart_report_groups:
  "\<exists>r. fst (restart lam now metadata keys) = Inr r
       \<and> map fst r = [''edgeSites'', ''sites'', ''placeholderSites'', ''functions'',
                      ''sitesWithPrefetch'', ''functionsWithPrefetch'']
       \<and> length r = 6"
  using restart_eq [of lam now metadata keys] by auto

text \<open>
  C8, as the claim states it, fails on the number of groups: on the example snapshot
  the report has the six groups named here, not seven.
\<close>

theorem restart_report_six_groups_example:
  "(case fst (restart exampleLambda ''1700000000000'' exampleMetadata [''k'']) of
      Inl e \<Rightarrow> []
    | Inr r \<Rightarrow> map fst r)
   = [''edgeSites'', ''sites'', ''placeholderSites'', ''functions'',
      ''sitesWithPrefetch'', ''functionsWithPrefetch'']
   \<and> (case fst (restart exampleLambda ''1700000000000'' exampleMetadata [''k'']) of
        Inl e \<Rightarrow> 0
      | Inr r \<Rightarrow> length r)
     = 6"
  by (simp add: example_restart)

lemma functionData_excludes_servers:
  assumes "s \<in> set (siteData metadata keys)" and "arn (data f) = server (data s)"
  shows "f \<notin> set (functionData metadata keys)"
  using assms by (simp add: functionData_def regionalSiteArns_def)

text \<open>
  C6. A resource whose \<open>arn\<close> is the \<open>server\<close> of a site matched by the keys is in
  neither function bucket, and so in neither function group of the report.
\<close>

theorem restart_excludes_site_servers_from_functions:
  assumes "s \<in> set (siteData metadata keys)" and "arn (data f) = server (data s)"
  shows "f \<notin> set (functionDataWithPrefetchSecrets metadata keys)
       \<and> f \<notin> set (functionDataWithoutPrefetchSecrets metadata keys)
       \<and> (\<exists>r fs fps. fst (restart lam now metadata keys) = Inr r
             \<and> map_of r ''functions'' = Some fs
             \<and> map_of r ''functionsWithPrefetch'' = Some fps
             \<and> f \<notin> set fs \<and> f \<notin> set fps)"
proof -
  have nf: "f \<notin> set (functionData metadata keys)"
    using assms by (rule functionData_excludes_servers)
  have a: "f \<notin> set (functionDataWithPrefetchSecrets metadata keys)"
    using nf by (simp add: functionDataWithPrefetchSecrets_def)
  have b: "f \<notin> set (functionDataWithoutPrefetchSecrets metadata keys)"
    using nf by (simp add: functionDataWithoutPrefetchSecrets_def)
  obtain ss fs where r: "fst (restart lam now metadata keys)
             = Inr [(''edgeSites'', siteDataEdge metadata keys),
                    (''sites'', ss),
                    (''placeholderSites'', siteDataPlaceholder metadata keys),
                    (''functions'', fs),
                    (''sitesWithPrefetch'', siteDataWithPrefetchSecrets metadata keys),
                    (''functionsWithPrefetch'', functionDataWithPrefetchSecrets metadata keys)]"
      and fs: "set fs \<subseteq> set (functionDataWithoutPrefetchSecrets metadata keys)"
    using restart_eq [of lam now metadata keys] by force
  have "f \<notin> set fs" using fs b by blast
  with a r have "\<exists>r fs fps. fst (restart lam now metadata keys) = Inr r
             \<and> map_of r ''functions'' = Some fs
             \<and> map_of r ''functionsWithPrefetch'' = Some fps
             \<and> f \<notin> set fs \<and> f \<notin> set fps"
    by simp
  with a b show ?thesis by blast
qed

theorem restart_excludes_site_servers_from_functions_witness:
  "exampleSite Deployed None (Some True) ''srv-e'' \<in> set (siteData exampleMetadata [''k''])
   \<and> arn (data (exampleFunction None ''srv-e''))
     = server (data (exampleSite Deployed None (Some True) ''srv-e''))
   \<and> exampleFunction None ''srv-e'' \<in> set (concat (map snd exampleMetadata))
   \<and> exampleFunction None ''srv-e'' \<notin> set (functionDataWithPrefetchSecrets exampleMetadata [''k''])
   \<and> exampleFunction None ''srv-e''
     \<notin> set (functionDataWithoutPrefetchSecrets exampleMetadata [''k''])"
proof -
  have s: "exampleSite Deployed None (Some True) ''srv-e'' \<in> set (siteData exampleMetadata [''k''])"
    by (simp add: example_siteData)
  have a: "arn (data (exampleFunction None ''srv-e''))
             = server (data (exampleSite Deployed None (Some True) ''srv-e''))"
    by (simp add: exampleFunction_def exampleSite_def)
  have m: "exampleFunction None ''srv-e'' \<in> set (concat (map snd exampleMetadata))"
    by (simp add: exampleMetadata_def)
  from restart_excludes_site_servers_from_functions
         [OF s a, of exampleLambda "''1700000000000''"] s a m
  show ?thesis by blast
qed






end
